theory Spec2Isabelle
  imports Complex_Main
begin

section \<open>Errors\<close>

text \<open>
  Every exception the modelled code can raise is a value.  The first five are all
  Python \<^verbatim>\<open>ValueError\<close>s, told apart by their message:
  \<^item> \<open>ConstantParameter\<close>: \<^verbatim>\<open>ValueError("The parameter '%s' is constant")\<close>,
  \<^item> \<open>AlreadyConstrained\<close>: \<^verbatim>\<open>ValueError("The parameter '%s' is already constrained")\<close>,
  \<^item> \<open>SpecifyAttributeAccess\<close>: \<^verbatim>\<open>ValueError("Specify attribute access")\<close>,
  \<^item> \<open>SpecifyBothAccessors\<close>: \<^verbatim>\<open>ValueError("Specify both getter and setter")\<close>,
  \<^item> \<open>InvalidName\<close>: the \<^verbatim>\<open>ValueError\<close> of \<^verbatim>\<open>validateName\<close>.
  \<open>RestraintDomainError\<close> is the error kind the specification names for a zero
  sigma; no statement of the code raises it.
\<close>

datatype error =
    ConstantParameter
  | AlreadyConstrained
  | SpecifyAttributeAccess
  | SpecifyBothAccessors
  | InvalidName
  | RestraintDomainError
  | IndexError
  | TypeError
  | AttributeError
  | ZeroDivisionError
  | EvaluationError

fun isValueError :: "error \<Rightarrow> bool" where
  "isValueError ConstantParameter = True"
| "isValueError AlreadyConstrained = True"
| "isValueError SpecifyAttributeAccess = True"
| "isValueError SpecifyBothAccessors = True"
| "isValueError InvalidName = True"
| "isValueError _ = False"

text \<open>The specification's \<open>ConstraintConflictError\<close>: constraining a constant or an
  already constrained Parameter.\<close>

fun isConstraintConflictError :: "error \<Rightarrow> bool" where
  "isConstraintConflictError ConstantParameter = True"
| "isConstraintConflictError AlreadyConstrained = True"
| "isConstraintConflictError _ = False"

section \<open>Restraints (\<^verbatim>\<open>fit/restrain.py\<close>)\<close>

text \<open>
  \<^verbatim>\<open>restrain\<close> composes its arguments with node arithmetic: \<^verbatim>\<open>lb - eq\<close>,
  \<^verbatim>\<open>eq - ub\<close>, \<^verbatim>\<open>maximum_(a, b)\<close> and \<^verbatim>\<open>x / sig\<close> each build a new operator node
  over their operands; nothing is evaluated when the node is built.  A Python number
  used as an operand is the leaf \<open>Number\<close>.  Values are modelled as real numbers.
\<close>

datatype ufunc = Subtract | Maximum | Divide

datatype node =
    Number real
  | Argument string real
  | Operation string ufunc node node

text \<open>Modelled from the spec: the operator overloads of nodes and \<^verbatim>\<open>maximum_\<close> of
  \<^verbatim>\<open>diffpy.srfit.fit.functions\<close> are not among the sources; each builds an operator
  node over its two operands (section 4.2: evaluation is demand-driven).\<close>

definition node_sub :: "node \<Rightarrow> node \<Rightarrow> node" where
  "node_sub a b = Operation ''subtract'' Subtract a b"

definition maximum_node :: "node \<Rightarrow> node \<Rightarrow> node" where
  "maximum_node a b = Operation ''maximum'' Maximum a b"

definition node_div :: "node \<Rightarrow> node \<Rightarrow> node" where
  "node_div a b = Operation ''divide'' Divide a b"

fun set_name :: "string \<Rightarrow> node \<Rightarrow> node" where
  "set_name n (Operation _ f a b) = Operation n f a b"
| "set_name n (Argument _ v) = Argument n v"
| "set_name n (Number v) = Number v"

text \<open>
  \<^verbatim>\<open>
  def restrain(eq, lb, ub = None, sig = 1):
      if ub is None: ub = lb
      resv = maximum_(lb - eq, maximum_(0, eq - ub)) / sig
      resv.name = "restraint"
      return resv
  \<close>
  The function has no \<^verbatim>\<open>raise\<close>; its result is always \<open>Inr\<close>.
\<close>

definition restrain :: "node \<Rightarrow> node \<Rightarrow> node option \<Rightarrow> node \<Rightarrow> error + node" where
  "restrain eq lb ub sig =
     (let ub' = (case ub of None \<Rightarrow> lb | Some u \<Rightarrow> u);
          resv = node_div (maximum_node (node_sub lb eq) (maximum_node (Number 0) (node_sub eq ub'))) sig
      in Inr (set_name ''restraint'' resv))"

text \<open>Modelled from the spec: the evaluation of a node (section 4.2) is not among the
  sources.  An operator evaluates its children in order and applies its function; a
  leaf returns its stored value.  Division by zero is an evaluation-time error.\<close>

fun apply_ufunc :: "ufunc \<Rightarrow> real \<Rightarrow> real \<Rightarrow> error + real" where
  "apply_ufunc Subtract x y = Inr (x - y)"
| "apply_ufunc Maximum x y = Inr (max x y)"
| "apply_ufunc Divide x y = (if y = 0 then Inl ZeroDivisionError else Inr (x / y))"

fun evaluate :: "node \<Rightarrow> error + real" where
  "evaluate (Number x) = Inr x"
| "evaluate (Argument n v) = Inr v"
| "evaluate (Operation n f a b) =
     (case evaluate a of
        Inl e \<Rightarrow> Inl e
      | Inr x \<Rightarrow> (case evaluate b of
                   Inl e \<Rightarrow> Inl e
                 | Inr y \<Rightarrow> apply_ufunc f x y))"

text \<open>\<^verbatim>\<open>penalty()\<close>: the value of the restraint node that \<^verbatim>\<open>restrain\<close> returned.\<close>

definition penalty :: "error + node \<Rightarrow> error + real" where
  "penalty r = (case r of Inl e \<Rightarrow> Inl e | Inr resv \<Rightarrow> evaluate resv)"

text \<open>The value of the upper bound: that of \<open>ub\<close>, or of \<open>lb\<close> when \<open>ub\<close> is absent.\<close>

definition upper_value :: "node \<Rightarrow> node option \<Rightarrow> error + real" where
  "upper_value lb ub = (case ub of None \<Rightarrow> evaluate lb | Some u \<Rightarrow> evaluate u)"

section \<open>Parameters and constraints (\<^verbatim>\<open>fitbase/parameter.py\<close>, \<^verbatim>\<open>fitbase/constraint.py\<close>)\<close>

text \<open>
  Parameters and Equations are objects with identity, shared by reference: they live
  in a heap and are named by their addresses.  A \<open>parameter\<close> holds the attributes
  the two modules read and write: \<^verbatim>\<open>name\<close>, \<^verbatim>\<open>_value\<close> (\<open>None\<close> until a value is
  set), \<^verbatim>\<open>const\<close>, the flag \<^verbatim>\<open>constrained\<close> that \<^verbatim>\<open>Constraint\<close> reads and writes, the
  Equation \<^verbatim>\<open>constraint\<close> that \<^verbatim>\<open>Parameter.constrain\<close> stores, and \<^verbatim>\<open>bounds\<close> (\<open>None\<close>
  is an infinite bound).

  \<^verbatim>\<open>Parameter.__init__\<close> creates \<^verbatim>\<open>constraint\<close> and \<^verbatim>\<open>bounds\<close> and passes name, value
  and \<^verbatim>\<open>const\<close> to \<^verbatim>\<open>Argument.__init__\<close>; it does not create \<^verbatim>\<open>constrained\<close>.  The
  attribute exists once something has assigned it (\<^verbatim>\<open>Constraint.constrain\<close> and
  \<^verbatim>\<open>Constraint.unconstrain\<close> do); until then reading it raises \<^verbatim>\<open>AttributeError\<close>.  So
  \<open>constrained\<close> is \<open>None\<close> while the attribute is absent.
\<close>

type_synonym pid = nat
type_synonym eid = nat

record parameter =
  pname :: string
  pvalue :: "real option"
  pconst :: bool
  constrained :: "bool option"
  constraint :: "eid option"
  bounds :: "real option \<times> real option"

text \<open>
  The heap: the Parameter at each address, the observers registered on each Equation
  (the Parameters whose \<^verbatim>\<open>_flush\<close> was added with \<^verbatim>\<open>addObserver\<close>), and the log of
  \<^verbatim>\<open>notify()\<close> calls, oldest first.
\<close>

record heap =
  pars :: "pid \<Rightarrow> parameter"
  observers :: "eid \<Rightarrow> pid set"
  notified :: "pid list"

text \<open>
  Calling an Equation (\<^verbatim>\<open>eq()\<close>) is code outside the sources: it is the parameter
  \<open>call\<close> of the functions below, which reads the heap and returns the value, or
  \<open>None\<close> when the evaluation raises (an \<open>EvaluationError\<close>).  An evaluation reads
  the Parameters and leaves the heap as it is.
\<close>

type_synonym equation_call = "eid \<Rightarrow> heap \<Rightarrow> real option"

definition update_par :: "pid \<Rightarrow> (parameter \<Rightarrow> parameter) \<Rightarrow> heap \<Rightarrow> heap" where
  "update_par p f h = h\<lparr>pars := (pars h)(p := f (pars h p))\<rparr>"

text \<open>Modelled from the spec: \<^verbatim>\<open>notify\<close>, \<^verbatim>\<open>_flush\<close>, \<^verbatim>\<open>addObserver\<close> and
  \<^verbatim>\<open>removeObserver\<close> of the node base class are not among the sources.  A
  notification is recorded in the log; flushing a Parameter notifies its observers;
  an observer is added to, or removed from, the Equation's observers.\<close>

definition notify :: "pid \<Rightarrow> heap \<Rightarrow> heap" where
  "notify p h = h\<lparr>notified := notified h @ [p]\<rparr>"

definition flush :: "pid \<Rightarrow> heap \<Rightarrow> heap" where
  "flush p h = notify p h"

definition addObserver :: "eid \<Rightarrow> pid \<Rightarrow> heap \<Rightarrow> heap" where
  "addObserver e p h = h\<lparr>observers := (observers h)(e := insert p (observers h e))\<rparr>"

definition removeObserver :: "eid \<Rightarrow> pid \<Rightarrow> heap \<Rightarrow> heap" where
  "removeObserver e p h = h\<lparr>observers := (observers h)(e := observers h e - {p})\<rparr>"

text \<open>Modelled from the spec: \<^verbatim>\<open>Argument.getValue\<close> and \<^verbatim>\<open>Argument.setValue\<close> are not
  among the sources.  Reading returns the stored value (section 4.5); writing stores
  a value that differs from the stored one and notifies, and does nothing otherwise
  (as \<^verbatim>\<open>Constraint.update\<close> notes: ``This will only change the Parameter if val is
  different from the currently stored value'').  Writing is open to constant
  Parameters too: \<^verbatim>\<open>Parameter.setConst\<close> sets \<^verbatim>\<open>const\<close> and then calls \<^verbatim>\<open>setValue\<close>, so
  that ``the parameter will get a new value, constant or otherwise''.\<close>

definition Argument_getValue :: "pid \<Rightarrow> heap \<Rightarrow> real option" where
  "Argument_getValue p h = pvalue (pars h p)"

definition Argument_setValue :: "pid \<Rightarrow> real \<Rightarrow> heap \<Rightarrow> heap" where
  "Argument_setValue p v h =
     (if Some v \<noteq> pvalue (pars h p)
      then notify p (update_par p (\<lambda>q. q\<lparr>pvalue := Some v\<rparr>) h)
      else h)"

text \<open>
  \<^verbatim>\<open>
  def constrain(self, eq):
      self.constraint = eq
      eq.addObserver(self._flush)
      self._flush(self)
  \<close>
\<close>

definition Parameter_constrain :: "pid \<Rightarrow> eid \<Rightarrow> heap \<Rightarrow> heap" where
  "Parameter_constrain p e h =
     flush p (addObserver e p (update_par p (\<lambda>q. q\<lparr>constraint := Some e\<rparr>) h))"

text \<open>
  \<^verbatim>\<open>
  def unconstrain(self):
      if self.constraint is not None:
          self._value = self.constraint()
          self.constraint.removeObserver(self._flush)
          self.constraint = None
      self.notify()
  \<close>
\<close>

definition Parameter_unconstrain :: "equation_call \<Rightarrow> pid \<Rightarrow> heap \<Rightarrow> error + heap" where
  "Parameter_unconstrain call p h =
     (case constraint (pars h p) of
        None \<Rightarrow> Inr (notify p h)
      | Some e \<Rightarrow>
          (case call e h of
             None \<Rightarrow> Inl EvaluationError
           | Some v \<Rightarrow>
               Inr (notify p
                     (update_par p (\<lambda>q. q\<lparr>constraint := None\<rparr>)
                       (removeObserver e p
                         (update_par p (\<lambda>q. q\<lparr>pvalue := Some v\<rparr>) h))))))"

text \<open>
  \<^verbatim>\<open>
  def getValue(self):
      if self.constraint is not None:
          self._value = self.constraint()
      return Argument.getValue(self)
  \<close>
  The result is the value returned and the heap after the call.
\<close>

definition Parameter_getValue ::
  "equation_call \<Rightarrow> pid \<Rightarrow> heap \<Rightarrow> error + (real option \<times> heap)" where
  "Parameter_getValue call p h =
     (case constraint (pars h p) of
        None \<Rightarrow> Inr (Argument_getValue p h, h)
      | Some e \<Rightarrow>
          (case call e h of
             None \<Rightarrow> Inl EvaluationError
           | Some v \<Rightarrow>
               (let h' = update_par p (\<lambda>q. q\<lparr>pvalue := Some v\<rparr>) h
                in Inr (Argument_getValue p h', h'))))"

text \<open>A \<^verbatim>\<open>Constraint\<close> object: its attributes \<^verbatim>\<open>par\<close> and \<^verbatim>\<open>eq\<close>, both \<open>None\<close>
  after \<^verbatim>\<open>__init__\<close>.\<close>

record constraint_obj =
  cpar :: "pid option"
  ceq :: "eid option"

definition Constraint_init :: constraint_obj where
  "Constraint_init = \<lparr>cpar = None, ceq = None\<rparr>"

text \<open>
  \<^verbatim>\<open>
  def update(self):
      val = self.eq()
      self.par.setValue(val)
  \<close>
  Calling \<open>None\<close> is a \<^verbatim>\<open>TypeError\<close>, an attribute of \<open>None\<close> an \<^verbatim>\<open>AttributeError\<close>.
\<close>

definition Constraint_update :: "equation_call \<Rightarrow> constraint_obj \<Rightarrow> heap \<Rightarrow> error + heap" where
  "Constraint_update call c h =
     (case ceq c of
        None \<Rightarrow> Inl TypeError
      | Some e \<Rightarrow>
          (case call e h of
             None \<Rightarrow> Inl EvaluationError
           | Some v \<Rightarrow>
               (case cpar c of
                  None \<Rightarrow> Inl AttributeError
                | Some p \<Rightarrow> Inr (Argument_setValue p v h))))"

text \<open>
  \<^verbatim>\<open>
  def constrain(self, par, eq):
      if par.const:
          raise ValueError("The parameter '%s' is constant"%par)
      if par.constrained:
          raise ValueError("The parameter '%s' is already constrained"%par)
      par.constrained = True
      self.par = par
      self.eq = eq
      self.update()
  \<close>
  A failure is the exception together with the Constraint and the heap as the
  exception leaves them: unchanged when one of the tests raises (reading an absent
  \<^verbatim>\<open>constrained\<close> is an \<^verbatim>\<open>AttributeError\<close>), and with the flag set and \<^verbatim>\<open>par\<close> and \<^verbatim>\<open>eq\<close>
  stored when \<^verbatim>\<open>update\<close> raises.
\<close>

definition Constraint_constrain ::
  "equation_call \<Rightarrow> constraint_obj \<Rightarrow> pid \<Rightarrow> eid \<Rightarrow> heap
     \<Rightarrow> (error \<times> constraint_obj \<times> heap) + (constraint_obj \<times> heap)" where
  "Constraint_constrain call c p e h =
     (if pconst (pars h p) then Inl (ConstantParameter, c, h)
      else
        (case constrained (pars h p) of
           None \<Rightarrow> Inl (AttributeError, c, h)
         | Some True \<Rightarrow> Inl (AlreadyConstrained, c, h)
         | Some False \<Rightarrow>
             (let h1 = update_par p (\<lambda>q. q\<lparr>constrained := Some True\<rparr>) h;
                  c1 = c\<lparr>cpar := Some p, ceq := Some e\<rparr>
              in case Constraint_update call c1 h1 of
                   Inl err \<Rightarrow> Inl (err, c1, h1)
                 | Inr h2 \<Rightarrow> Inr (c1, h2))))"

text \<open>
  \<^verbatim>\<open>
  def unconstrain(self):
      self.par.constrained = False
      self.par = None
      self.eq = None
  \<close>
\<close>

definition Constraint_unconstrain :: "constraint_obj \<Rightarrow> heap \<Rightarrow> error + (constraint_obj \<times> heap)" where
  "Constraint_unconstrain c h =
     (case cpar c of
        None \<Rightarrow> Inl AttributeError
      | Some p \<Rightarrow>
          Inr (c\<lparr>cpar := None, ceq := None\<rparr>,
               update_par p (\<lambda>q. q\<lparr>constrained := Some False\<rparr>) h))"

text \<open>The failure of a result with a \<open>ConstraintConflictError\<close>.\<close>

definition fails_with_conflict :: "(error \<times> 'b) + 'a \<Rightarrow> bool" where
  "fails_with_conflict r =
     (case r of Inl (err, _) \<Rightarrow> isConstraintConflictError err | Inr _ \<Rightarrow> False)"

text \<open>An example heap: the Parameter \<open>p\<close> at address 0 with no value, the Parameter
  \<open>q\<close> at address 1 with value 3; and the call of the Equation \<open>2*q\<close>.
  \<open>new_Parameter\<close> is a Parameter as \<^verbatim>\<open>__init__\<close> leaves it: no constraint, infinite
  bounds, and no attribute \<^verbatim>\<open>constrained\<close>.\<close>

definition new_Parameter :: "string \<Rightarrow> real option \<Rightarrow> bool \<Rightarrow> parameter" where
  "new_Parameter n v c =
     \<lparr>pname = n, pvalue = v, pconst = c, constrained = None, constraint = None,
      bounds = (None, None)\<rparr>"

definition example_heap :: heap where
  "example_heap =
     \<lparr>pars = (\<lambda>_. new_Parameter ''unused'' None False)
        (0 := new_Parameter ''p'' None False, 1 := new_Parameter ''q'' (Some 3) False),
      observers = (\<lambda>_. {}),
      notified = []\<rparr>"

definition twice :: "pid \<Rightarrow> equation_call" where
  "twice q e h = map_option (\<lambda>x. 2 * x) (pvalue (pars h q))"

section \<open>Parameter wrappers (\<^verbatim>\<open>ParameterWrapper\<close> of \<^verbatim>\<open>fitbase/parameter.py\<close>)\<close>

text \<open>
  The wrapped object is owned outside the wrapper; it is modelled by its attributes,
  a dictionary from attribute names to values.  Python's \<^verbatim>\<open>getattr\<close> raises
  \<^verbatim>\<open>AttributeError\<close> for a missing attribute; \<^verbatim>\<open>setattr\<close> stores the value.
\<close>

type_synonym obj = "string \<rightharpoonup> real"

definition getattr :: "obj \<Rightarrow> string \<Rightarrow> error + real" where
  "getattr ob a = (case ob a of None \<Rightarrow> Inl AttributeError | Some v \<Rightarrow> Inr v)"

definition setattr :: "obj \<Rightarrow> string \<Rightarrow> real \<Rightarrow> error + obj" where
  "setattr ob a v = Inr (ob(a \<mapsto> v))"

text \<open>
  A getter supplied by the caller is called as \<^verbatim>\<open>getter(obj)\<close> (second argument
  \<open>None\<close>) or as \<^verbatim>\<open>getter(obj, attr)\<close>; a setter as \<^verbatim>\<open>setter(obj, value)\<close> or as
  \<^verbatim>\<open>setter(obj, attr, value)\<close>.  Either may raise.
\<close>

type_synonym getter_fn = "obj \<Rightarrow> string option \<Rightarrow> error + real"
type_synonym setter_fn = "obj \<Rightarrow> string option \<Rightarrow> real \<Rightarrow> error + obj"

text \<open>
  The wrapper after \<^verbatim>\<open>__init__\<close>: the attributes of a Parameter, the attribute key
  and the two accessors as \<^verbatim>\<open>__init__\<close> left them in \<^verbatim>\<open>self.getter\<close> and
  \<^verbatim>\<open>self.setter\<close>.
\<close>

record wrapper =
  wname :: string
  wvalue :: "real option"
  wconst :: bool
  wconstraint :: "nat option"
  wbounds :: "real option \<times> real option"
  wattr :: "string option"
  getter :: "obj \<Rightarrow> error + real"
  setter :: "obj \<Rightarrow> real \<Rightarrow> error + obj"

text \<open>Modelled from the spec: \<^verbatim>\<open>validateName\<close> of \<^verbatim>\<open>diffpy.srfit.util.nameutils\<close> is
  not among the sources.  \<^verbatim>\<open>Parameter.__init__\<close> documents it: ``Raises ValueError
  if the name is not a valid attribute identifier''.  An identifier starts with a
  letter or an underscore and goes on with letters, digits and underscores.\<close>

definition is_letter :: "char \<Rightarrow> bool" where
  "is_letter c =
     (let k = (of_char c :: nat) in (65 \<le> k \<and> k \<le> 90) \<or> (97 \<le> k \<and> k \<le> 122) \<or> k = 95)"

definition is_digit :: "char \<Rightarrow> bool" where
  "is_digit c = (let k = (of_char c :: nat) in 48 \<le> k \<and> k \<le> 57)"

fun isIdentifier :: "string \<Rightarrow> bool" where
  "isIdentifier [] = False"
| "isIdentifier (c # cs) = (is_letter c \<and> list_all (\<lambda>d. is_letter d \<or> is_digit d) cs)"

definition validateName :: "string \<Rightarrow> error + unit" where
  "validateName n = (if isIdentifier n then Inr () else Inl InvalidName)"

text \<open>
  The accessors that \<^verbatim>\<open>__init__\<close> stores:
  \<^verbatim>\<open>
  self.getter = getter
  self.setter = setter
  if attr is not None:
      if getter is None:
          self.getter = lambda obj: getattr(obj, self.attr)
      else:
          self.getter = lambda obj: getter(obj, self.attr)
      if setter is None:
          self.setter = lambda obj, val: setattr(obj, self.attr, val)
      else:
          self.setter = lambda obj, val: setter(obj, self.attr, val)
  \<close>
  An accessor left \<open>None\<close> raises \<^verbatim>\<open>TypeError\<close> when it is called.
\<close>

definition resolve_getter :: "getter_fn option \<Rightarrow> string option \<Rightarrow> obj \<Rightarrow> error + real" where
  "resolve_getter g attr =
     (case attr of
        Some a \<Rightarrow>
          (case g of
             None \<Rightarrow> (\<lambda>ob. getattr ob a)
           | Some gf \<Rightarrow> (\<lambda>ob. gf ob (Some a)))
      | None \<Rightarrow>
          (case g of
             None \<Rightarrow> (\<lambda>ob. Inl TypeError)
           | Some gf \<Rightarrow> (\<lambda>ob. gf ob None)))"

definition resolve_setter ::
  "setter_fn option \<Rightarrow> string option \<Rightarrow> obj \<Rightarrow> real \<Rightarrow> error + obj" where
  "resolve_setter s attr =
     (case attr of
        Some a \<Rightarrow>
          (case s of
             None \<Rightarrow> (\<lambda>ob v. setattr ob a v)
           | Some sf \<Rightarrow> (\<lambda>ob v. sf ob (Some a) v))
      | None \<Rightarrow>
          (case s of
             None \<Rightarrow> (\<lambda>ob v. Inl TypeError)
           | Some sf \<Rightarrow> (\<lambda>ob v. sf ob None v)))"

text \<open>
  \<^verbatim>\<open>
  def __init__(self, name, obj, getter = None, setter = None, attr = None):
      if getter is None and setter is None and attr is None:
          raise ValueError("Specify attribute access")
      if [getter, setter].count(None) == 1:
          raise ValueError("Specify both getter and setter")
      self.obj = obj
      ... (the accessors, above)
      self.constraint = None
      value = self.getValue()
      Parameter.__init__(self, name, value)
  \<close>
  \<^verbatim>\<open>self.getValue()\<close> is \<^verbatim>\<open>self.getter(self.obj)\<close>; \<^verbatim>\<open>Parameter.__init__\<close> sets the
  constraint and the bounds, validates the name and stores name, value and
  \<^verbatim>\<open>const = False\<close>.
\<close>

definition ParameterWrapper_init ::
  "string \<Rightarrow> obj \<Rightarrow> getter_fn option \<Rightarrow> setter_fn option \<Rightarrow> string option \<Rightarrow> error + wrapper" where
  "ParameterWrapper_init name ob g s attr =
     (if Option.is_none g \<and> Option.is_none s \<and> Option.is_none attr
        then Inl SpecifyAttributeAccess
      else if count_list [Option.is_none g, Option.is_none s] True = 1
        then Inl SpecifyBothAccessors
      else
        (case resolve_getter g attr ob of
           Inl e \<Rightarrow> Inl e
         | Inr v \<Rightarrow>
             (case validateName name of
                Inl e \<Rightarrow> Inl e
              | Inr _ \<Rightarrow>
                  Inr \<lparr>wname = name, wvalue = Some v, wconst = False, wconstraint = None,
                       wbounds = (None, None), wattr = attr,
                       getter = resolve_getter g attr, setter = resolve_setter s attr\<rparr>)))"

text \<open>
  The world a wrapper acts on: the wrapped object, and the log of the calls of the
  setter and of \<^verbatim>\<open>notify()\<close>, oldest first.
\<close>

datatype call = SetterCall real | NotifyCall

record world =
  target :: obj
  calls :: "call list"

text \<open>
  \<^verbatim>\<open>
  def getValue(self):
      return self.getter(self.obj)

  def setValue(self, value):
      if value != self.getValue():
          self.setter(self.obj, value)
          self.notify()
  \<close>
\<close>

definition ParameterWrapper_getValue :: "wrapper \<Rightarrow> world \<Rightarrow> error + real" where
  "ParameterWrapper_getValue w st = getter w (target st)"

definition ParameterWrapper_setValue :: "wrapper \<Rightarrow> real \<Rightarrow> world \<Rightarrow> error + world" where
  "ParameterWrapper_setValue w x st =
     (case ParameterWrapper_getValue w st of
        Inl e \<Rightarrow> Inl e
      | Inr cur \<Rightarrow>
          (if x \<noteq> cur
           then (case setter w (target st) x of
                   Inl e \<Rightarrow> Inl e
                 | Inr ob' \<Rightarrow> Inr (st\<lparr>target := ob', calls := calls st @ [SetterCall x, NotifyCall]\<rparr>))
           else Inr st))"

text \<open>The combinations of accessors that the claim names as rejected: exactly one of
  getter and setter supplied, or getter, setter and attribute key all absent.\<close>

definition accessors_rejected :: "getter_fn option \<Rightarrow> setter_fn option \<Rightarrow> string option \<Rightarrow> bool" where
  "accessors_rejected g s attr =
     ((Option.is_none g \<noteq> Option.is_none s)
      \<or> (Option.is_none g \<and> Option.is_none s \<and> Option.is_none attr))"

definition fails_with_ValueError :: "error + 'a \<Rightarrow> bool" where
  "fails_with_ValueError r = (case r of Inl e \<Rightarrow> isValueError e | Inr _ \<Rightarrow> False)"

definition succeeds :: "error + 'a \<Rightarrow> bool" where
  "succeeds r = (case r of Inl _ \<Rightarrow> False | Inr _ \<Rightarrow> True)"

text \<open>An example object with the attribute \<open>value = 3\<close>, and accessors for it.\<close>

definition example_obj :: obj where
  "example_obj = [''value'' \<mapsto> 3]"

definition example_getter :: getter_fn where
  "example_getter ob a = getattr ob (case a of None \<Rightarrow> ''value'' | Some k \<Rightarrow> k)"

definition example_setter :: setter_fn where
  "example_setter ob a v = setattr ob (case a of None \<Rightarrow> ''value'' | Some k \<Rightarrow> k) v"

definition example_wrapper :: wrapper where
  "example_wrapper =
     \<lparr>wname = ''l'', wvalue = Some 3, wconst = False, wconstraint = None,
      wbounds = (None, None), wattr = Some ''value'',
      getter = resolve_getter None (Some ''value''),
      setter = resolve_setter None (Some ''value'')\<rparr>"

definition example_world :: world where
  "example_world = \<lparr>target = example_obj, calls = []\<rparr>"

section \<open>Generators (\<^verbatim>\<open>equation/literals/Generator.py\<close>)\<close>

text \<open>
  A Generator is an abstract class: subclasses override \<^verbatim>\<open>generate(clicker)\<close>, so
  the method is a field of the object.  It acts on a world \<open>'w\<close> (whatever the
  subclass and the visitors change); the clicker is a clock value.  \<^verbatim>\<open>literal\<close> and
  \<^verbatim>\<open>args\<close> hold addresses of other Literals.
\<close>

record 'w generator =
  gname :: string
  literal :: "nat option"
  gargs :: "nat list"
  generate :: "nat \<Rightarrow> 'w \<Rightarrow> 'w"

text \<open>A visitor of Literal trees; of its methods only \<^verbatim>\<open>onGenerator\<close> is called
  here.  A visitor method may raise.\<close>

record 'w visitor =
  onGenerator :: "'w generator \<Rightarrow> 'w \<Rightarrow> error + 'w"

text \<open>
  \<^verbatim>\<open>
  def __init__(self, name = ""):
      Literal.__init__(self)
      self.name = name
      self.literal = None
      self.args = []

  def generate(self, clicker):
      """... By default this method does nothing."""
      return
  \<close>
\<close>

definition Generator_generate :: "nat \<Rightarrow> 'w \<Rightarrow> 'w" where
  "Generator_generate clicker w = w"

definition Generator_init :: "string \<Rightarrow> 'w generator" where
  "Generator_init name =
     \<lparr>gname = name, literal = None, gargs = [], generate = Generator_generate\<rparr>"

text \<open>
  \<^verbatim>\<open>
  def identify(self, visitor):
      """Identify self to a visitor."""
      visitor.onGenerator(self)
      return
  \<close>
\<close>

definition Generator_identify :: "'w generator \<Rightarrow> 'w visitor \<Rightarrow> 'w \<Rightarrow> error + 'w" where
  "Generator_identify self v w = onGenerator v self w"

text \<open>
  An example: the world is a log of events; the Generator of a subclass whose
  \<^verbatim>\<open>generate\<close> logs the regeneration, and a visitor whose \<^verbatim>\<open>onGenerator\<close> logs the
  visit.
\<close>

datatype gevent = Regenerated string | Visited string

definition logging_generator :: "gevent list generator" where
  "logging_generator =
     (Generator_init ''g'')\<lparr>generate := (\<lambda>clicker w. w @ [Regenerated ''g''])\<rparr>"

definition logging_visitor :: "gevent list visitor" where
  "logging_visitor = \<lparr>onGenerator = (\<lambda>g w. Inr (w @ [Visited (gname g)]))\<rparr>"

section \<open>Visitors of node trees (\<^verbatim>\<open>util/visitors.py\<close>)\<close>

text \<open>
  The nodes the visitors walk.  Every node carries the identity of its object (an
  address), so that two objects with equal contents remain different nodes.
  \<^item> A Parameter has a name (possibly \<open>None\<close>), a value and \<^verbatim>\<open>_constraint\<close>, a node
    or \<open>None\<close>.
  \<^item> An Operator has a name, the function \<^verbatim>\<open>_unbound\<close> it applies, the positional
    children \<^verbatim>\<open>_args\<close> and the keyword children \<^verbatim>\<open>_kw\<close>, a dictionary kept in the
    order in which \<^verbatim>\<open>items()\<close> and \<^verbatim>\<open>values()\<close> yield it.
  \<^item> A Container has a name, a value and its children \<^verbatim>\<open>adapters\<close>.
  The functions of \<^verbatim>\<open>diffpy.srfit.adapters.nodes\<close> that the Printer knows are
  constructors of \<open>unbound\<close>; any other function is \<open>nodes_other\<close> with its name.
\<close>

datatype unbound =
    nodes_add
  | nodes_subtract
  | nodes_multiply
  | nodes_divide
  | nodes_power
  | nodes_negative
  | nodes_other string

datatype vnode =
    Parameter nat "string option" real "vnode option"
  | Operator nat "string option" unbound "vnode list" "(string \<times> vnode) list"
  | Container nat "string option" real "vnode list"

fun isParameter :: "vnode \<Rightarrow> bool" where
  "isParameter (Parameter i n v c) = True"
| "isParameter (Operator i n u as kw) = False"
| "isParameter (Container i n v ads) = False"

text \<open>Modelled from the spec: \<^verbatim>\<open>_identify\<close> of the node classes is not among the
  sources.  It is the double dispatch of section 4.2: a Parameter calls
  \<^verbatim>\<open>visitor.onParameter(self)\<close>, an Operator \<^verbatim>\<open>visitor.onOperator(self)\<close>, a Container
  \<^verbatim>\<open>visitor.onContainer(self)\<close>.  In each function \<open>_identify\<close> below the three
  equations are the three methods of the visitor.\<close>

subsection \<open>FilterGetter and ParameterGetter\<close>

text \<open>
  \<^verbatim>\<open>
  class FilterGetter(Visitor):
      def __init__(self, filt):
          self.filt = filt
          self.vals = set()

      def onParameter(self, obj):
          if self.filt(obj):
              self.vals.add(obj)
          if obj._constraint is not None:
              obj._constraint._identify(self)

      def onOperator(self, obj):
          if self.filt(obj):
              self.vals.add(obj)
          for arg in obj._args:
              arg._identify(self)
          for arg in obj._kw.values():
              arg._identify(self)

      def onContainer(self, obj):
          if self.filt(obj):
              self.vals.add(obj)
          for arg in obj.adapters:
              arg._identify(self)
  \<close>
  The functions take the filter and the set \<^verbatim>\<open>vals\<close> collected so far and return
  \<^verbatim>\<open>vals\<close> after the visit.
\<close>

text \<open>The statement \<^verbatim>\<open>if self.filt(obj): self.vals.add(obj)\<close>.\<close>

definition add_filtered :: "(vnode \<Rightarrow> bool) \<Rightarrow> vnode \<Rightarrow> vnode set \<Rightarrow> vnode set" where
  "add_filtered filt ob vals = (if filt ob then insert ob vals else vals)"

fun FilterGetter_identify :: "(vnode \<Rightarrow> bool) \<Rightarrow> vnode \<Rightarrow> vnode set \<Rightarrow> vnode set"
  and FilterGetter_each :: "(vnode \<Rightarrow> bool) \<Rightarrow> vnode list \<Rightarrow> vnode set \<Rightarrow> vnode set"
  and FilterGetter_values :: "(vnode \<Rightarrow> bool) \<Rightarrow> (string \<times> vnode) list \<Rightarrow> vnode set \<Rightarrow> vnode set"
where
  "FilterGetter_identify filt (Parameter i n v c) vals =
     (case c of
        None \<Rightarrow> add_filtered filt (Parameter i n v c) vals
      | Some eq \<Rightarrow> FilterGetter_identify filt eq (add_filtered filt (Parameter i n v c) vals))"
| "FilterGetter_identify filt (Operator i n u as kw) vals =
     FilterGetter_values filt kw
       (FilterGetter_each filt as (add_filtered filt (Operator i n u as kw) vals))"
| "FilterGetter_identify filt (Container i n v ads) vals =
     FilterGetter_each filt ads (add_filtered filt (Container i n v ads) vals)"
| "FilterGetter_each filt [] vals = vals"
| "FilterGetter_each filt (arg # rest) vals =
     FilterGetter_each filt rest (FilterGetter_identify filt arg vals)"
| "FilterGetter_values filt [] vals = vals"
| "FilterGetter_values filt ((k, arg) # rest) vals =
     FilterGetter_values filt rest (FilterGetter_identify filt arg vals)"

definition FilterGetter_init :: "(vnode \<Rightarrow> bool) \<Rightarrow> (vnode \<Rightarrow> bool) \<times> vnode set" where
  "FilterGetter_init filt = (filt, {})"

text \<open>
  \<^verbatim>\<open>
  def _identity(obj):
      return True

  class ParameterGetter(Visitor):
      def __init__(self, filt = None):
          self.filt = filt
          if self.filt is None:
              self.filt = _identity
          self.vals = set()

      def onParameter(self, obj):
          if self.filt(obj):
              self.vals.add(obj)
          if obj._constraint is not None:
              obj._constraint._identify(self)

      def onOperator(self, obj):
          for arg in obj._args:
              arg._identify(self)
          for arg in obj._kw.values():
              arg._identify(self)

      def onContainer(self, obj):
          for arg in obj.adapters:
              arg._identify(self)
  \<close>
\<close>

definition identity_filter :: "vnode \<Rightarrow> bool" where
  "identity_filter ob = True"

definition ParameterGetter_init :: "(vnode \<Rightarrow> bool) option \<Rightarrow> (vnode \<Rightarrow> bool) \<times> vnode set" where
  "ParameterGetter_init filt = ((case filt of None \<Rightarrow> identity_filter | Some f \<Rightarrow> f), {})"

fun ParameterGetter_identify :: "(vnode \<Rightarrow> bool) \<Rightarrow> vnode \<Rightarrow> vnode set \<Rightarrow> vnode set"
  and ParameterGetter_each :: "(vnode \<Rightarrow> bool) \<Rightarrow> vnode list \<Rightarrow> vnode set \<Rightarrow> vnode set"
  and ParameterGetter_values ::
    "(vnode \<Rightarrow> bool) \<Rightarrow> (string \<times> vnode) list \<Rightarrow> vnode set \<Rightarrow> vnode set"
where
  "ParameterGetter_identify filt (Parameter i n v c) vals =
     (case c of
        None \<Rightarrow> add_filtered filt (Parameter i n v c) vals
      | Some eq \<Rightarrow> ParameterGetter_identify filt eq (add_filtered filt (Parameter i n v c) vals))"
| "ParameterGetter_identify filt (Operator i n u as kw) vals =
     ParameterGetter_values filt kw (ParameterGetter_each filt as vals)"
| "ParameterGetter_identify filt (Container i n v ads) vals =
     ParameterGetter_each filt ads vals"
| "ParameterGetter_each filt [] vals = vals"
| "ParameterGetter_each filt (arg # rest) vals =
     ParameterGetter_each filt rest (ParameterGetter_identify filt arg vals)"
| "ParameterGetter_values filt [] vals = vals"
| "ParameterGetter_values filt ((k, arg) # rest) vals =
     ParameterGetter_values filt rest (ParameterGetter_identify filt arg vals)"

text \<open>A complete visit: the visitor is constructed and the tree identifies itself to
  it; the result is \<^verbatim>\<open>vals\<close>.\<close>

definition FilterGetter_visit :: "(vnode \<Rightarrow> bool) \<Rightarrow> vnode \<Rightarrow> vnode set" where
  "FilterGetter_visit filt tree =
     (case FilterGetter_init filt of (f, vals) \<Rightarrow> FilterGetter_identify f tree vals)"

definition ParameterGetter_visit :: "(vnode \<Rightarrow> bool) option \<Rightarrow> vnode \<Rightarrow> vnode set" where
  "ParameterGetter_visit filt tree =
     (case ParameterGetter_init filt of (f, vals) \<Rightarrow> ParameterGetter_identify f tree vals)"

text \<open>
  The nodes reachable from a node: the node itself, the nodes of a Parameter's
  constraint, of an Operator's positional and keyword children, and of a
  Container's adapters.
\<close>

fun nodes_of :: "vnode \<Rightarrow> vnode list"
  and nodes_of_each :: "vnode list \<Rightarrow> vnode list"
  and nodes_of_values :: "(string \<times> vnode) list \<Rightarrow> vnode list"
where
  "nodes_of (Parameter i n v c) =
     Parameter i n v c # (case c of None \<Rightarrow> [] | Some eq \<Rightarrow> nodes_of eq)"
| "nodes_of (Operator i n u as kw) =
     Operator i n u as kw # (nodes_of_each as @ nodes_of_values kw)"
| "nodes_of (Container i n v ads) = Container i n v ads # nodes_of_each ads"
| "nodes_of_each [] = []"
| "nodes_of_each (arg # rest) = nodes_of arg @ nodes_of_each rest"
| "nodes_of_values [] = []"
| "nodes_of_values ((k, arg) # rest) = nodes_of arg @ nodes_of_values rest"

text \<open>
  An example tree: the sum \<open>p + 1\<close>, where the Parameter \<open>p\<close> is constrained to
  the product \<open>2 * q\<close>.  The Parameter \<open>q\<close> is reachable through the constraint of
  \<open>p\<close> only.
\<close>

definition example_q :: vnode where
  "example_q = Parameter 1 (Some ''q'') 3 None"

definition example_two :: vnode where
  "example_two = Parameter 2 None 2 None"

definition example_product :: vnode where
  "example_product = Operator 3 (Some ''multiply'') nodes_multiply [example_two, example_q] []"

definition example_p :: vnode where
  "example_p = Parameter 0 (Some ''p'') 6 (Some example_product)"

definition example_one :: vnode where
  "example_one = Parameter 4 None 1 None"

definition example_sum :: vnode where
  "example_sum = Operator 5 (Some ''add'') nodes_add [example_p, example_one] []"

subsection \<open>Printer\<close>

text \<open>
  The Printer builds its \<^verbatim>\<open>output\<close> string.  Python's \<^verbatim>\<open>str\<close> of a value is the
  parameter \<open>str\<close> of the functions below; \<^verbatim>\<open>str\<close> of a name that is \<open>None\<close> is
  the text \<open>None\<close>.
  \<^verbatim>\<open>
  _infix = { nodes.add : "+", nodes.subtract : "-", nodes.multiply : "*",
             nodes.divide : "/", nodes.power : "**" }
  _unary = { nodes.negative : "-" }
  \<close>
\<close>

fun Printer_binary :: "unbound \<Rightarrow> string option" where
  "Printer_binary nodes_add = Some ''+''"
| "Printer_binary nodes_subtract = Some ''-''"
| "Printer_binary nodes_multiply = Some ''*''"
| "Printer_binary nodes_divide = Some ''/''"
| "Printer_binary nodes_power = Some ''**''"
| "Printer_binary _ = None"

fun Printer_unary :: "unbound \<Rightarrow> string option" where
  "Printer_unary nodes_negative = Some ''-''"
| "Printer_unary _ = None"

definition str_name :: "string option \<Rightarrow> string" where
  "str_name n = (case n of None \<Rightarrow> ''None'' | Some s \<Rightarrow> s)"

definition startswith :: "string \<Rightarrow> char \<Rightarrow> bool" where
  "startswith s c = (case s of [] \<Rightarrow> False | x # _ \<Rightarrow> x = c)"

definition endswith :: "string \<Rightarrow> char \<Rightarrow> bool" where
  "endswith s c = (case rev s of [] \<Rightarrow> False | x # _ \<Rightarrow> x = c)"

text \<open>
  \<^verbatim>\<open>
  def onParameter(self, obj):
      if obj.name is None or obj.name.startswith("_"):
          self.output += str(obj.value)
      else:
          self.output += str(obj.name)

  def onContainer(self, obj):
      self.onParameter(obj)
  \<close>
\<close>

definition Printer_onParameter ::
  "(real \<Rightarrow> string) \<Rightarrow> string option \<Rightarrow> real \<Rightarrow> string \<Rightarrow> string" where
  "Printer_onParameter str name v output =
     (case name of
        None \<Rightarrow> output @ str v
      | Some n \<Rightarrow> (if startswith n CHR ''_'' then output @ str v else output @ n))"

text \<open>The end of \<^verbatim>\<open>onOperator\<close>:
  \<^verbatim>\<open>
  if not (self.output.startswith("(") and self.output.endswith(")")):
      self.output = "(%s)"%self.output
  self.output = instr + self.output
  \<close>
\<close>

definition parenthesize :: "string \<Rightarrow> string" where
  "parenthesize output =
     (if \<not> (startswith output CHR ''('' \<and> endswith output CHR '')'')
      then ''('' @ output @ '')''
      else output)"

text \<open>
  \<^verbatim>\<open>
  def onOperator(self, obj):
      instr = self.output
      self.output = ""
      if obj._unbound in self.__class__._infix:
          self._onInfix(obj)
      elif obj._unbound in self.__class__._unary:
          self._onUnary(obj)
      else:
          instr += str(obj.name)
          numargs = 0
          for arg in obj._args:
              if numargs != 0: self.output += ", "
              arg._identify(self)
              numargs += 1
          for kw, arg in obj._kw.items():
              if numargs != 0: self.output += ", %s = "%kw
              arg._identify(self)
      (the end, above)

  def _onInfix(self, op):
      symbol = self.__class__._infix[op._unbound]
      op._args[0]._identify(self)
      self.output += " %s "%symbol
      op._args[1]._identify(self)

  def _onUnary(self, op):
      symbol = self.__class__._unary[op._unbound]
      self.output += symbol
      op._args[0]._identify(self)
  \<close>
  Each function takes \<^verbatim>\<open>output\<close> and returns it after the call.
  \<open>Printer_finish\<close> is the end of \<^verbatim>\<open>onOperator\<close> on the saved \<^verbatim>\<open>instr\<close>.  \<open>Printer_nth\<close> is
  \<^verbatim>\<open>op._args[k]._identify(self)\<close>, an \<^verbatim>\<open>IndexError\<close> when the list is too short;
  \<open>Printer_args\<close> and \<open>Printer_kw\<close> are the two loops, with \<^verbatim>\<open>numargs\<close>.
\<close>

definition Printer_finish :: "string \<Rightarrow> error + string \<Rightarrow> error + string" where
  "Printer_finish instr r =
     (case r of Inl e \<Rightarrow> Inl e | Inr output \<Rightarrow> Inr (instr @ parenthesize output))"

function (sequential) Printer_identify :: "(real \<Rightarrow> string) \<Rightarrow> vnode \<Rightarrow> string \<Rightarrow> error + string"
  and Printer_onInfix ::
    "(real \<Rightarrow> string) \<Rightarrow> string \<Rightarrow> vnode list \<Rightarrow> string \<Rightarrow> error + string"
  and Printer_onUnary ::
    "(real \<Rightarrow> string) \<Rightarrow> string \<Rightarrow> vnode list \<Rightarrow> string \<Rightarrow> error + string"
  and Printer_nth :: "(real \<Rightarrow> string) \<Rightarrow> vnode list \<Rightarrow> nat \<Rightarrow> string \<Rightarrow> error + string"
  and Printer_args ::
    "(real \<Rightarrow> string) \<Rightarrow> vnode list \<Rightarrow> nat \<Rightarrow> string \<Rightarrow> error + (nat \<times> string)"
  and Printer_kw ::
    "(real \<Rightarrow> string) \<Rightarrow> (string \<times> vnode) list \<Rightarrow> nat \<Rightarrow> string \<Rightarrow> error + string"
where
  "Printer_identify str (Parameter i n v c) output = Inr (Printer_onParameter str n v output)"
| "Printer_identify str (Container i n v ads) output = Inr (Printer_onParameter str n v output)"
| "Printer_identify str (Operator i n u as kw) output =
     (case Printer_binary u of
        Some symbol \<Rightarrow> Printer_finish output (Printer_onInfix str symbol as [])
      | None \<Rightarrow>
          (case Printer_unary u of
             Some symbol \<Rightarrow> Printer_finish output (Printer_onUnary str symbol as [])
           | None \<Rightarrow>
               Printer_finish (output @ str_name n)
                 (case Printer_args str as 0 [] of
                    Inl e \<Rightarrow> Inl e
                  | Inr (numargs, o1) \<Rightarrow> Printer_kw str kw numargs o1)))"
| "Printer_onInfix str symbol as output =
     (case Printer_nth str as 0 output of
        Inl e \<Rightarrow> Inl e
      | Inr o1 \<Rightarrow> Printer_nth str as 1 (o1 @ '' '' @ symbol @ '' ''))"
| "Printer_onUnary str symbol as output = Printer_nth str as 0 (output @ symbol)"
| "Printer_nth str [] k output = Inl IndexError"
| "Printer_nth str (arg # rest) 0 output = Printer_identify str arg output"
| "Printer_nth str (arg # rest) (Suc k) output = Printer_nth str rest k output"
| "Printer_args str [] numargs output = Inr (numargs, output)"
| "Printer_args str (arg # rest) numargs output =
     (case Printer_identify str arg (if numargs \<noteq> 0 then output @ '', '' else output) of
        Inl e \<Rightarrow> Inl e
      | Inr o1 \<Rightarrow> Printer_args str rest (numargs + 1) o1)"
| "Printer_kw str [] numargs output = Inr output"
| "Printer_kw str ((k, arg) # rest) numargs output =
     (case Printer_identify str arg
             (if numargs \<noteq> 0 then output @ '', '' @ k @ '' = '' else output) of
        Inl e \<Rightarrow> Inl e
      | Inr o1 \<Rightarrow> Printer_kw str rest numargs o1)"
  by pat_completeness auto

termination
  by (relation "measure (\<lambda>x. case x of
          Inl (Inl (str, t, output)) \<Rightarrow> 2 * size t
        | Inl (Inr (Inl (str, symbol, as, output))) \<Rightarrow> 2 * size_list size as + 1
        | Inl (Inr (Inr (str, symbol, as, output))) \<Rightarrow> 2 * size_list size as + 1
        | Inr (Inl (str, as, k, output)) \<Rightarrow> 2 * size_list size as
        | Inr (Inr (Inl (str, as, numargs, output))) \<Rightarrow> 2 * size_list size as
        | Inr (Inr (Inr (str, kw, numargs, output))) \<Rightarrow>
            2 * size_list (size_prod (\<lambda>_. 0) size) kw)")
    simp_all

text \<open>A complete print: \<^verbatim>\<open>Printer()\<close> starts with the empty output.\<close>

definition Printer_print :: "(real \<Rightarrow> string) \<Rightarrow> vnode \<Rightarrow> error + string" where
  "Printer_print str tree = Printer_identify str tree []"

text \<open>Example nodes: the Parameters \<open>x\<close>, \<open>y\<close> and \<open>z\<close>, and Operators of a
  function \<open>f\<close> that the Printer does not know.\<close>

definition par_x :: vnode where
  "par_x = Parameter 11 (Some ''x'') 1 None"

definition par_y :: vnode where
  "par_y = Parameter 12 (Some ''y'') 2 None"

definition par_z :: vnode where
  "par_z = Parameter 13 (Some ''z'') 3 None"

definition f_keywords_only :: vnode where
  "f_keywords_only =
     Operator 14 (Some ''f'') (nodes_other ''f'') [] [(''a'', par_x), (''b'', par_y)]"

definition f_positional_and_keyword :: vnode where
  "f_positional_and_keyword =
     Operator 15 (Some ''f'') (nodes_other ''f'') [par_z] [(''a'', par_x), (''b'', par_y)]"

section \<open>Theorems about restraints\<close>

lemma restrain_node:
  "restrain eq lb ub sig =
     Inr (Operation ''restraint'' Divide
           (Operation ''maximum'' Maximum
              (Operation ''subtract'' Subtract lb eq)
              (Operation ''maximum'' Maximum (Number 0)
                 (Operation ''subtract'' Subtract eq (case ub of None \<Rightarrow> lb | Some u \<Rightarrow> u))))
           sig)"
  by (simp add: restrain_def node_div_def maximum_node_def node_sub_def)

lemma penalty_restrain:
  assumes "evaluate eq = Inr v" and "evaluate lb = Inr l"
    and "upper_value lb ub = Inr u" and "evaluate sig = Inr s" and "s \<noteq> 0"
  shows "penalty (restrain eq lb ub sig) = Inr (max (l - v) (max 0 (v - u)) / s)"
  using assms
  by (cases ub) (simp_all add: penalty_def restrain_node upper_value_def)

text \<open>
  C1 (as stated): calling \<^verbatim>\<open>restrain\<close> with sigma equal to 0 fails with
  RestraintDomainError at the call.  It does not: with sigma the number 0 the call
  returns the restraint node.
\<close>

theorem restrain_zero_sigma_counterexample:
  "restrain (Argument ''x'' 5) (Number 0) (Some (Number 10)) (Number 0) \<noteq> Inl RestraintDomainError
   \<and> restrain (Argument ''x'' 5) (Number 0) (Some (Number 10)) (Number 0) =
       Inr (Operation ''restraint'' Divide
             (Operation ''maximum'' Maximum
                (Operation ''subtract'' Subtract (Number 0) (Argument ''x'' 5))
                (Operation ''maximum'' Maximum (Number 0)
                   (Operation ''subtract'' Subtract (Argument ''x'' 5) (Number 10))))
             (Number 0))"
  by (simp add: restrain_node)

text \<open>
  C1 (amended): \<^verbatim>\<open>restrain\<close> checks nothing about sigma.  For every equation, bounds
  and sigma, zero included, the call succeeds and returns the node named
  \<open>restraint\<close> for \<open>maximum(lb - eq, maximum(0, eq - ub)) / sig\<close>, where \<open>ub\<close> is
  \<open>lb\<close> when absent; it never fails with RestraintDomainError.
\<close>

theorem restrain_never_fails:
  "restrain eq lb ub sig =
     Inr (set_name ''restraint''
            (node_div
               (maximum_node (node_sub lb eq)
                  (maximum_node (Number 0) (node_sub eq (case ub of None \<Rightarrow> lb | Some u \<Rightarrow> u))))
               sig))
   \<and> restrain eq lb ub sig \<noteq> Inl RestraintDomainError"
  by (simp add: restrain_def)

text \<open>
  C2: for every equation value \<open>v\<close>, lower bound \<open>l\<close>, upper bound \<open>u\<close>
  (\<open>u = l\<close> when the upper bound is absent) and non-zero sigma \<open>s\<close>, the restraint
  built by \<^verbatim>\<open>restrain\<close> evaluates to \<open>max(0, l - v, v - u) / s\<close>; and for bounds
  \<open>l \<le> u\<close>, as a lower and an upper bound are, it is zero whenever \<open>v\<close> lies in
  \<open>[l, u]\<close>, \<open>(l - v) / s\<close> when \<open>v < l\<close> and \<open>(v - u) / s\<close> when \<open>v > u\<close>.
\<close>

theorem restrain_penalty:
  assumes "evaluate eq = Inr v" and "evaluate lb = Inr l"
    and "upper_value lb ub = Inr u" and "evaluate sig = Inr s" and "s \<noteq> 0"
  shows "penalty (restrain eq lb ub sig) = Inr (Max {0, l - v, v - u} / s)
    \<and> (l \<le> u \<longrightarrow>
         (l \<le> v \<and> v \<le> u \<longrightarrow> penalty (restrain eq lb ub sig) = Inr 0)
       \<and> (v < l \<longrightarrow> penalty (restrain eq lb ub sig) = Inr ((l - v) / s))
       \<and> (u < v \<longrightarrow> penalty (restrain eq lb ub sig) = Inr ((v - u) / s)))"
proof -
  note p = penalty_restrain [OF assms]
  have m: "Max {0, l - v, v - u} = max (l - v) (max 0 (v - u))"
    by (simp add: max.commute max.left_commute)
  have "penalty (restrain eq lb ub sig) = Inr (Max {0, l - v, v - u} / s)"
    using p m by simp
  moreover have "l \<le> u \<Longrightarrow> l \<le> v \<Longrightarrow> v \<le> u \<Longrightarrow> penalty (restrain eq lb ub sig) = Inr 0"
    using p by (simp add: max_def)
  moreover have "l \<le> u \<Longrightarrow> v < l \<Longrightarrow> penalty (restrain eq lb ub sig) = Inr ((l - v) / s)"
    using p by (simp add: max_def)
  moreover have "l \<le> u \<Longrightarrow> u < v \<Longrightarrow> penalty (restrain eq lb ub sig) = Inr ((v - u) / s)"
    using p by (simp add: max_def)
  ultimately show ?thesis by blast
qed

theorem restrain_penalty_witness:
  "penalty (restrain (Argument ''x'' 11) (Number 0) (Some (Number 10)) (Number 2)) = Inr (1 / 2)
   \<and> penalty (restrain (Argument ''x'' (- 1)) (Number 0) (Some (Number 10)) (Number 2)) = Inr (1 / 2)
   \<and> penalty (restrain (Argument ''x'' 4) (Number 0) (Some (Number 10)) (Number 2)) = Inr 0
   \<and> penalty (restrain (Argument ''x'' 7) (Number 3) None (Number 2)) = Inr 2"
  using restrain_penalty [of "Argument ''x'' 11" 11 "Number 0" 0 "Some (Number 10)" 10 "Number 2" 2]
    restrain_penalty [of "Argument ''x'' (- 1)" "- 1" "Number 0" 0 "Some (Number 10)" 10 "Number 2" 2]
    restrain_penalty [of "Argument ''x'' 4" 4 "Number 0" 0 "Some (Number 10)" 10 "Number 2" 2]
    restrain_penalty [of "Argument ''x'' 7" 7 "Number 3" 3 None 3 "Number 2" 2]
  by (simp add: upper_value_def)

section \<open>Theorems about parameters and constraints\<close>

lemma pars_update_par [simp]:
  "pars (update_par p f h) = (pars h)(p := f (pars h p))"
  by (simp add: update_par_def)

lemma observers_update_par [simp]: "observers (update_par p f h) = observers h"
  by (simp add: update_par_def)

lemma pars_notify [simp]: "pars (notify p h) = pars h"
  by (simp add: notify_def)

lemma pars_Argument_setValue:
  "pvalue (pars (Argument_setValue p v h) p) = Some v"
  by (simp add: Argument_setValue_def)

lemma Argument_setValue_frame:
  "constrained (pars (Argument_setValue p v h) q) = constrained (pars h q)"
  "constraint (pars (Argument_setValue p v h) q) = constraint (pars h q)"
  by (simp_all add: Argument_setValue_def)

lemma Constraint_constrain_outcomes:
  "(fails_with_conflict (Constraint_constrain call c p e h)
      \<longleftrightarrow> pconst (pars h p) \<or> constrained (pars h p) = Some True)
   \<and> (\<forall>c' h'. Constraint_constrain call c p e h = Inr (c', h') \<longrightarrow>
         constrained (pars h p) = Some False
         \<and> constrained (pars h' p) = Some True \<and> cpar c' = Some p \<and> ceq c' = Some e
         \<and> pvalue (pars h' p)
             = call e (update_par p (\<lambda>q. q\<lparr>constrained := Some True\<rparr>) h)
         \<and> pvalue (pars h' p) \<noteq> None)
   \<and> (\<not> pconst (pars h p) \<and> constrained (pars h p) = None \<longrightarrow>
        Constraint_constrain call c p e h = Inl (AttributeError, c, h))"
  by (auto simp: fails_with_conflict_def Constraint_constrain_def Constraint_update_def Let_def
      pars_Argument_setValue Argument_setValue_frame
      split: option.splits sum.splits bool.splits)

text \<open>
  C3: the claim has \<^verbatim>\<open>constrain(p, e)\<close> fail only for a Parameter that is constant
  or already constrained, and otherwise mark \<open>p\<close> constrained, store \<open>e\<close> and
  force one evaluation.  On a Parameter as \<^verbatim>\<open>Parameter.__init__\<close> leaves it, neither
  constant nor constrained, the call of \<^verbatim>\<open>Constraint.constrain\<close> raises
  \<^verbatim>\<open>AttributeError\<close> when it reads \<^verbatim>\<open>par.constrained\<close>, although the Equation \<open>2*q\<close>
  has the value 6: nothing is marked, stored or evaluated.
\<close>

theorem Constraint_constrain_new_Parameter:
  "\<not> pconst (pars example_heap 0)
   \<and> constrained (pars example_heap 0) = None
   \<and> constraint (pars example_heap 0) = None
   \<and> twice 1 7 example_heap = Some 6
   \<and> Constraint_constrain (twice 1) Constraint_init 0 7 example_heap
       = Inl (AttributeError, Constraint_init, example_heap)"
  by (simp add: Constraint_constrain_def example_heap_def new_Parameter_def twice_def)

text \<open>
  C4: for every constrained Parameter \<open>p\<close> (its \<^verbatim>\<open>constraint\<close> is an Equation), each
  call of \<^verbatim>\<open>p.getValue()\<close> evaluates the constraint, stores the result as \<open>p\<close>'s
  value and returns it; for a Parameter without constraint it returns the stored
  value and changes nothing.  So after \<^verbatim>\<open>p.constrain(2*q)\<close> and \<^verbatim>\<open>q.setValue(10)\<close>,
  \<^verbatim>\<open>p.getValue()\<close> is 20.
\<close>

theorem Parameter_getValue_constrained:
  "(constraint (pars h p) = Some e \<and> call e h = Some v \<longrightarrow>
      Parameter_getValue call p h = Inr (Some v, update_par p (\<lambda>q. q\<lparr>pvalue := Some v\<rparr>) h))
   \<and> (constraint (pars h p) = None \<longrightarrow>
        Parameter_getValue call p h = Inr (pvalue (pars h p), h))
   \<and> (p \<noteq> q \<longrightarrow>
        map_sum id fst
          (Parameter_getValue (twice q) p (Argument_setValue q 10 (Parameter_constrain p e h)))
        = Inr (Some 20))"
proof -
  have "p \<noteq> q \<Longrightarrow> constraint (pars (Argument_setValue q 10 (Parameter_constrain p e h)) p) = Some e"
    by (simp add: Argument_setValue_frame Parameter_constrain_def flush_def addObserver_def)
  moreover have "twice q e (Argument_setValue q 10 (Parameter_constrain p e h)) = Some 20"
    by (simp add: twice_def pars_Argument_setValue)
  ultimately show ?thesis
    by (simp add: Parameter_getValue_def Argument_getValue_def)
qed

theorem Parameter_getValue_constrained_witness:
  "Parameter_getValue (twice 1) 0 (Parameter_constrain 0 7 example_heap)
     = Inr (Some 6, update_par 0 (\<lambda>q. q\<lparr>pvalue := Some 6\<rparr>) (Parameter_constrain 0 7 example_heap))
   \<and> Parameter_getValue (twice 1) 1 example_heap = Inr (Some 3, example_heap)
   \<and> map_sum id fst
       (Parameter_getValue (twice 1) 0 (Argument_setValue 1 10 (Parameter_constrain 0 7 example_heap)))
     = Inr (Some 20)"
proof -
  let ?h = "Parameter_constrain 0 7 example_heap"
  have a: "constraint (pars ?h 0) = Some 7" "twice 1 7 ?h = Some 6"
    by (simp_all add: Parameter_constrain_def flush_def addObserver_def twice_def
        example_heap_def new_Parameter_def)
  have b: "constraint (pars example_heap 1) = None" "pvalue (pars example_heap 1) = Some 3"
    by (simp_all add: example_heap_def new_Parameter_def)
  show ?thesis
    using Parameter_getValue_constrained [of ?h 0 7 "twice 1" 6 0] a
      Parameter_getValue_constrained [of example_heap 1 7 "twice 1" 6 1] b
      Parameter_getValue_constrained [of example_heap 0 7 "twice 1" 6 1]
    by simp
qed

text \<open>
  C5: for every constrained Parameter \<open>p\<close>, \<^verbatim>\<open>p.unconstrain()\<close> evaluates the
  constraint one last time, stores the result as \<open>p\<close>'s value, removes \<open>p\<close> from
  the Equation's observers and clears the constraint.  Afterwards \<^verbatim>\<open>p.getValue()\<close>
  returns that last value, and after \<^verbatim>\<open>p.setValue(5)\<close> it returns 5.
  \<^verbatim>\<open>Constraint.unconstrain\<close> clears the flag \<^verbatim>\<open>constrained\<close> and leaves the value.
\<close>

theorem Parameter_unconstrain_restores:
  assumes "constraint (pars h p) = Some e" and "call e h = Some v"
  shows "\<exists>h'. Parameter_unconstrain call p h = Inr h'
           \<and> pvalue (pars h' p) = Some v
           \<and> constraint (pars h' p) = None
           \<and> p \<notin> observers h' e
           \<and> Parameter_getValue call p h' = Inr (Some v, h')
           \<and> Parameter_getValue call p (Argument_setValue p 5 h')
               = Inr (Some 5, Argument_setValue p 5 h')
           \<and> (\<forall>c. cpar c = Some p \<longrightarrow>
                 (\<exists>c' h''. Constraint_unconstrain c h' = Inr (c', h'')
                    \<and> cpar c' = None \<and> ceq c' = None
                    \<and> constrained (pars h'' p) = Some False \<and> pvalue (pars h'' p) = Some v))"
  using assms
  by (simp add: Parameter_unconstrain_def Parameter_getValue_def Argument_getValue_def
      removeObserver_def notify_def Constraint_unconstrain_def
      pars_Argument_setValue Argument_setValue_frame)

theorem Parameter_unconstrain_restores_witness:
  "\<exists>h'. Parameter_unconstrain (twice 1) 0 (Parameter_constrain 0 7 example_heap) = Inr h'
       \<and> pvalue (pars h' 0) = Some 6
       \<and> constraint (pars h' 0) = None
       \<and> 0 \<notin> observers h' 7
       \<and> Parameter_getValue (twice 1) 0 h' = Inr (Some 6, h')
       \<and> Parameter_getValue (twice 1) 0 (Argument_setValue 0 5 h')
           = Inr (Some 5, Argument_setValue 0 5 h')"
proof -
  let ?h = "Parameter_constrain 0 7 example_heap"
  have a: "constraint (pars ?h 0) = Some 7" "twice 1 7 ?h = Some 6"
    by (simp_all add: Parameter_constrain_def flush_def addObserver_def twice_def
        example_heap_def new_Parameter_def)
  from Parameter_unconstrain_restores [of ?h 0 7 "twice 1" 6] a show ?thesis
    by blast
qed

section \<open>Theorems about parameter wrappers\<close>

lemma ParameterWrapper_init_rejected:
  "accessors_rejected g s attr \<Longrightarrow> fails_with_ValueError (ParameterWrapper_init name ob g s attr)"
  by (cases g; cases s)
    (auto simp: accessors_rejected_def fails_with_ValueError_def ParameterWrapper_init_def)

lemma ParameterWrapper_init_accepted:
  assumes "\<not> accessors_rejected g s attr"
  shows "ParameterWrapper_init name ob g s attr =
           (case resolve_getter g attr ob of
              Inl e \<Rightarrow> Inl e
            | Inr v \<Rightarrow>
                (if isIdentifier name
                 then Inr \<lparr>wname = name, wvalue = Some v, wconst = False, wconstraint = None,
                       wbounds = (None, None), wattr = attr,
                       getter = resolve_getter g attr, setter = resolve_setter s attr\<rparr>
                 else Inl InvalidName))"
  using assms
  by (cases g; cases s)
    (auto simp: accessors_rejected_def ParameterWrapper_init_def validateName_def
      split: sum.splits)

text \<open>
  C7 (as stated): constructing a ParameterWrapper fails with ValueError if and only
  if the accessors are rejected.  With the attribute key alone, which is not
  rejected, the name \<open>2theta\<close> fails with the ValueError of the name validation.
\<close>

theorem ParameterWrapper_init_counterexample:
  "\<not> (fails_with_ValueError (ParameterWrapper_init ''2theta'' example_obj None None (Some ''value''))
       \<longleftrightarrow> accessors_rejected None None (Some ''value''))"
  by (simp add: ParameterWrapper_init_accepted accessors_rejected_def fails_with_ValueError_def
      resolve_getter_def getattr_def example_obj_def is_letter_def)

text \<open>
  C7 (amended): whatever the name, constructing a ParameterWrapper fails with
  ValueError when exactly one of getter and setter is supplied or when getter,
  setter and attribute key are all absent.  When the name is a valid identifier and
  the getter reads the wrapped object's value, the construction fails if and only
  if the accessors are so rejected: both accessors with no attribute key, an
  attribute key alone, and an attribute key with both accessors all succeed.
\<close>

theorem ParameterWrapper_init_accessors:
  "(accessors_rejected g s attr \<longrightarrow>
      fails_with_ValueError (ParameterWrapper_init name ob g s attr))
   \<and> (isIdentifier name \<and> resolve_getter g attr ob = Inr v \<longrightarrow>
        (fails_with_ValueError (ParameterWrapper_init name ob g s attr)
           \<longleftrightarrow> accessors_rejected g s attr)
      \<and> (succeeds (ParameterWrapper_init name ob g s attr)
           \<longleftrightarrow> \<not> accessors_rejected g s attr)
      \<and> (accessors_rejected g s attr
           \<longleftrightarrow> (g = None \<and> s \<noteq> None) \<or> (g \<noteq> None \<and> s = None)
               \<or> (g = None \<and> s = None \<and> attr = None)))"
proof -
  have "fails_with_ValueError (ParameterWrapper_init name ob g s attr)"
    if "accessors_rejected g s attr"
    using that by (rule ParameterWrapper_init_rejected)
  moreover have "\<not> fails_with_ValueError (ParameterWrapper_init name ob g s attr)
      \<and> succeeds (ParameterWrapper_init name ob g s attr)"
    if "\<not> accessors_rejected g s attr" "isIdentifier name" "resolve_getter g attr ob = Inr v"
    using that by (simp add: ParameterWrapper_init_accepted fails_with_ValueError_def succeeds_def)
  moreover have "\<not> succeeds (ParameterWrapper_init name ob g s attr)"
    if "accessors_rejected g s attr"
    using ParameterWrapper_init_rejected [OF that, of name ob]
    by (simp add: fails_with_ValueError_def succeeds_def split: sum.splits)
  moreover have "accessors_rejected g s attr
           \<longleftrightarrow> (g = None \<and> s \<noteq> None) \<or> (g \<noteq> None \<and> s = None)
               \<or> (g = None \<and> s = None \<and> attr = None)"
    by (cases g; cases s; cases attr) (simp_all add: accessors_rejected_def)
  ultimately show ?thesis by blast
qed

theorem ParameterWrapper_init_accessors_witness:
  "succeeds (ParameterWrapper_init ''l'' example_obj None None (Some ''value''))
   \<and> succeeds (ParameterWrapper_init ''l'' example_obj (Some example_getter) (Some example_setter) None)
   \<and> succeeds (ParameterWrapper_init ''l'' example_obj (Some example_getter) (Some example_setter)
        (Some ''value''))
   \<and> fails_with_ValueError (ParameterWrapper_init ''l'' example_obj (Some example_getter) None None)
   \<and> fails_with_ValueError (ParameterWrapper_init ''l'' example_obj None (Some example_setter)
        (Some ''value''))
   \<and> fails_with_ValueError (ParameterWrapper_init ''l'' example_obj None None None)"
proof -
  have n: "isIdentifier ''l''"
    by (simp add: is_letter_def)
  have g: "resolve_getter None (Some ''value'') example_obj = Inr 3"
    "resolve_getter (Some example_getter) None example_obj = Inr 3"
    "resolve_getter (Some example_getter) (Some ''value'') example_obj = Inr 3"
    by (simp_all add: resolve_getter_def example_getter_def getattr_def example_obj_def)
  show ?thesis
    using ParameterWrapper_init_accessors [of None None "Some ''value''" "''l''" example_obj 3]
      ParameterWrapper_init_accessors
        [of "Some example_getter" "Some example_setter" None "''l''" example_obj 3]
      ParameterWrapper_init_accessors
        [of "Some example_getter" "Some example_setter" "Some ''value''" "''l''" example_obj 3]
      ParameterWrapper_init_accessors [of "Some example_getter" None None "''l''" example_obj 3]
      ParameterWrapper_init_accessors
        [of None "Some example_setter" "Some ''value''" "''l''" example_obj 3]
      ParameterWrapper_init_accessors [of None None None "''l''" example_obj 3]
      n g
    by (simp add: accessors_rejected_def)
qed

text \<open>
  C9: for every ParameterWrapper \<open>w\<close> and value \<open>x\<close>, if \<open>x\<close> equals the wrapped
  object's current value as the getter reads it, \<^verbatim>\<open>w.setValue(x)\<close> calls neither the
  setter nor \<^verbatim>\<open>notify\<close>: the wrapped object and the log of calls are unchanged.  When
  \<open>x\<close> differs, the setter is called with \<open>x\<close> and then \<^verbatim>\<open>notify\<close>.
\<close>

theorem ParameterWrapper_setValue_unchanged:
  "(getter w (target st) = Inr x \<longrightarrow> ParameterWrapper_setValue w x st = Inr st)
   \<and> (getter w (target st) = Inr y \<and> x \<noteq> y \<and> setter w (target st) x = Inr ob' \<longrightarrow>
        ParameterWrapper_setValue w x st
          = Inr (st\<lparr>target := ob', calls := calls st @ [SetterCall x, NotifyCall]\<rparr>))
   \<and> (getter w (target st) = Inr y \<longrightarrow>
        (\<forall>st'. ParameterWrapper_setValue w x st = Inr st' \<longrightarrow>
           (calls st' = calls st \<longleftrightarrow> x = y)
         \<and> (x = y \<longrightarrow> target st' = target st)))"
  by (auto simp: ParameterWrapper_setValue_def ParameterWrapper_getValue_def split: sum.splits)

theorem ParameterWrapper_setValue_unchanged_witness:
  "ParameterWrapper_init ''l'' example_obj None None (Some ''value'') = Inr example_wrapper
   \<and> ParameterWrapper_setValue example_wrapper 3 example_world = Inr example_world
   \<and> ParameterWrapper_setValue example_wrapper 4 example_world
       = Inr \<lparr>target = example_obj(''value'' \<mapsto> 4), calls = [SetterCall 4, NotifyCall]\<rparr>"
proof -
  have i: "ParameterWrapper_init ''l'' example_obj None None (Some ''value'') = Inr example_wrapper"
    by (simp add: ParameterWrapper_init_accepted accessors_rejected_def example_wrapper_def
        resolve_getter_def getattr_def example_obj_def is_letter_def)
  have g: "getter example_wrapper (target example_world) = Inr 3"
    by (simp add: example_wrapper_def example_world_def resolve_getter_def getattr_def
        example_obj_def)
  have s: "setter example_wrapper (target example_world) 4 = Inr (example_obj(''value'' \<mapsto> 4))"
    by (simp add: example_wrapper_def example_world_def resolve_setter_def setattr_def)
  show ?thesis
    using i g s
      ParameterWrapper_setValue_unchanged [of example_wrapper example_world 3 3]
      ParameterWrapper_setValue_unchanged
        [of example_wrapper example_world 4 3 "example_obj(''value'' \<mapsto> 4)"]
    by (simp add: example_world_def)
qed

section \<open>Theorems about generators\<close>

text \<open>
  C6 (as stated): \<^verbatim>\<open>identify\<close> on a Generator first runs the Generator's
  regeneration and then dispatches \<^verbatim>\<open>onGenerator\<close>.  On the logging Generator and
  visitor the log after \<^verbatim>\<open>identify\<close> holds the visit alone: no regeneration ran, and
  the result is not that of regenerating first.
\<close>

theorem Generator_identify_counterexample:
  "Generator_identify logging_generator logging_visitor [] = Inr [Visited ''g'']
   \<and> onGenerator logging_visitor logging_generator (generate logging_generator 0 [])
       = Inr [Regenerated ''g'', Visited ''g'']
   \<and> Generator_identify logging_generator logging_visitor []
       \<noteq> onGenerator logging_visitor logging_generator (generate logging_generator 0 [])"
  by (simp add: Generator_identify_def logging_generator_def logging_visitor_def
      Generator_init_def)

text \<open>
  C6 (amended): for every visitor \<open>v\<close>, \<^verbatim>\<open>identify\<close> on a Generator dispatches
  \<^verbatim>\<open>v.onGenerator(self)\<close> on the world as it is and does nothing else; it does not
  call \<^verbatim>\<open>generate\<close>.  The \<^verbatim>\<open>generate\<close> of the base class does nothing.
\<close>

theorem Generator_identify_dispatch:
  "Generator_identify g v w = onGenerator v g w
   \<and> generate (Generator_init name) clicker w = w"
  by (simp add: Generator_identify_def Generator_init_def Generator_generate_def)

section \<open>Theorems about the visitors\<close>

lemma FilterGetter_collects:
  "FilterGetter_identify filt t vals = vals \<union> set (filter filt (nodes_of t))"
  "FilterGetter_each filt ts vals = vals \<union> set (filter filt (nodes_of_each ts))"
  "FilterGetter_values filt kws vals = vals \<union> set (filter filt (nodes_of_values kws))"
proof (induction filt t vals and filt ts vals and filt kws vals
      rule: FilterGetter_identify_FilterGetter_each_FilterGetter_values.induct)
  case (1 filt i n v c vals)
  then show ?case
    by (cases c) (simp_all add: add_filtered_def)
next
  case (2 filt i n u as kw vals)
  then show ?case
    by (simp add: add_filtered_def Un_assoc)
next
  case (3 filt i n v ads vals)
  then show ?case
    by (simp add: add_filtered_def)
qed (simp_all add: Un_assoc)

lemma ParameterGetter_collects:
  "ParameterGetter_identify filt t vals
     = vals \<union> set (filter (\<lambda>n. isParameter n \<and> filt n) (nodes_of t))"
  "ParameterGetter_each filt ts vals
     = vals \<union> set (filter (\<lambda>n. isParameter n \<and> filt n) (nodes_of_each ts))"
  "ParameterGetter_values filt kws vals
     = vals \<union> set (filter (\<lambda>n. isParameter n \<and> filt n) (nodes_of_values kws))"
proof (induction filt t vals and filt ts vals and filt kws vals
      rule: ParameterGetter_identify_ParameterGetter_each_ParameterGetter_values.induct)
  case (1 filt i n v c vals)
  then show ?case
    by (cases c) (simp_all add: add_filtered_def)
qed (simp_all add: Un_assoc)

text \<open>
  C10: for every node tree, the FilterGetter and the ParameterGetter collect
  exactly the nodes reachable from the tree, the nodes of every visited
  Parameter's constraint included, that their filter accepts (the ParameterGetter:
  the Parameters among them; without a filter, all of them).  So whatever is
  collected from the constraint of a constrained Parameter is collected from that
  Parameter, and a Parameter reachable only through a constraint is collected.  The
  result is a set: a collected node is in it once.
\<close>

theorem getters_descend_into_constraints:
  "FilterGetter_visit filt t = {n \<in> set (nodes_of t). filt n}
   \<and> ParameterGetter_visit (Some filt) t = {n \<in> set (nodes_of t). isParameter n \<and> filt n}
   \<and> ParameterGetter_visit None t = {n \<in> set (nodes_of t). isParameter n}
   \<and> set (nodes_of c) \<subseteq> set (nodes_of (Parameter i nm v (Some c)))
   \<and> FilterGetter_visit filt c \<subseteq> FilterGetter_visit filt (Parameter i nm v (Some c))
   \<and> ParameterGetter_visit (Some filt) c
       \<subseteq> ParameterGetter_visit (Some filt) (Parameter i nm v (Some c))
   \<and> ParameterGetter_visit None c \<subseteq> ParameterGetter_visit None (Parameter i nm v (Some c))"
proof -
  have f: "FilterGetter_visit g x = {n \<in> set (nodes_of x). g n}" for g x
    by (simp add: FilterGetter_visit_def FilterGetter_init_def FilterGetter_collects)
  have p: "ParameterGetter_visit (Some g) x = {n \<in> set (nodes_of x). isParameter n \<and> g n}"
    for g x
    by (simp add: ParameterGetter_visit_def ParameterGetter_init_def ParameterGetter_collects)
  have d: "ParameterGetter_visit None x = {n \<in> set (nodes_of x). isParameter n}" for x
    by (simp add: ParameterGetter_visit_def ParameterGetter_init_def ParameterGetter_collects
        identity_filter_def)
  have s: "set (nodes_of c) \<subseteq> set (nodes_of (Parameter i nm v (Some c)))"
    by auto
  show ?thesis
    unfolding f p d using s by auto
qed

theorem getters_descend_into_constraints_witness:
  "ParameterGetter_visit None example_sum = {example_p, example_two, example_q, example_one}
   \<and> example_q \<in> ParameterGetter_visit None example_p
   \<and> FilterGetter_visit (\<lambda>n. \<not> isParameter n) example_sum = {example_sum, example_product}
   \<and> ParameterGetter_visit (Some (\<lambda>n. n = example_q)) example_sum = {example_q}"
proof -
  have n: "nodes_of example_sum
      = [example_sum, example_p, example_product, example_two, example_q, example_one]"
    by (simp add: example_sum_def example_p_def example_product_def example_two_def
        example_q_def example_one_def)
  have k: "isParameter example_p" "isParameter example_two" "isParameter example_q"
    "isParameter example_one" "\<not> isParameter example_sum" "\<not> isParameter example_product"
    by (simp_all add: example_sum_def example_p_def example_product_def example_two_def
        example_q_def example_one_def)
  have q: "example_q \<in> set (nodes_of example_product)"
    by (simp add: example_product_def example_q_def)
  have e: "example_p \<noteq> example_q" "example_two \<noteq> example_q" "example_one \<noteq> example_q"
    by (simp_all add: example_p_def example_two_def example_q_def example_one_def)
  have "example_q \<in> ParameterGetter_visit None example_product"
    using getters_descend_into_constraints [of "\<lambda>n. True" example_product] q k(3)
    by simp
  then have m: "example_q \<in> ParameterGetter_visit None example_p"
    using getters_descend_into_constraints
        [of "\<lambda>n. True" example_sum example_product 0 "Some ''p''" 6]
    by (auto simp: example_p_def [symmetric])
  show ?thesis
    using getters_descend_into_constraints
        [of "\<lambda>n. \<not> isParameter n" example_sum example_product 0 "Some ''p''" 6]
      getters_descend_into_constraints
        [of "\<lambda>n. n = example_q" example_sum example_product 0 "Some ''p''" 6]
      n k e m
    by (auto simp: example_p_def [symmetric])
qed

lemma Printer_identify_output:
  "Printer_identify str t output =
     (case Printer_identify str t [] of Inl e \<Rightarrow> Inl e | Inr s \<Rightarrow> Inr (output @ s))"
  by (cases t)
    (simp_all add: Printer_onParameter_def Printer_finish_def split: option.splits sum.splits)

lemma Printer_binary_operator:
  assumes "Printer_binary u = Some symbol"
    and "Printer_print str a = Inr s1" and "Printer_print str b = Inr s2"
  shows "Printer_identify str (Operator i n u (a # b # rest) kw) output
           = Inr (output @ parenthesize (s1 @ '' '' @ symbol @ '' '' @ s2))"
proof -
  have "Printer_identify str b (s1 @ '' '' @ symbol @ '' '')
          = Inr ((s1 @ '' '' @ symbol @ '' '') @ s2)"
    using assms(3) Printer_identify_output [of str b "s1 @ '' '' @ symbol @ '' ''"]
    by (simp add: Printer_print_def)
  then show ?thesis
    using assms(1,2) by (simp add: Printer_print_def Printer_finish_def)
qed

lemma Printer_unary_operator:
  assumes "Printer_binary u = None" and "Printer_unary u = Some symbol"
    and "Printer_print str a = Inr s1"
  shows "Printer_identify str (Operator i n u (a # rest) kw) output
           = Inr (output @ parenthesize (symbol @ s1))"
proof -
  have "Printer_identify str a symbol = Inr (symbol @ s1)"
    using assms(3) Printer_identify_output [of str a symbol]
    by (simp add: Printer_print_def)
  then show ?thesis
    using assms(1,2) by (simp add: Printer_finish_def)
qed

lemma Printer_examples:
  "Printer_print str example_sum = Inr (''(p + '' @ str 1 @ '')'')"
  "Printer_print str (Operator 20 (Some ''negative'') nodes_negative [par_x] []) = Inr ''(-x)''"
  "Printer_print str (Operator 21 (Some ''f'') (nodes_other ''f'') [par_x, par_y] [])
     = Inr ''f(x, y)''"
  by (simp_all add: Printer_print_def Printer_finish_def Printer_onParameter_def
      parenthesize_def startswith_def endswith_def str_name_def
      example_sum_def example_p_def example_one_def par_x_def par_y_def)

text \<open>
  C8: the claim has every Operator that is neither binary nor unary rendered as
  \<open>name(arg1, arg2, ..., kw=val, ...)\<close>.  The code does so when the Operator
  has a positional child: \<open>f(z, a = x, b = y)\<close>.  For the Operator \<open>f\<close> with the
  keyword children \<open>a = x\<close> and \<open>b = y\<close> and no positional child it prints
  \<open>f(xy)\<close>: the keyword loop writes the separator and the keyword only when
  \<^verbatim>\<open>numargs\<close> is not 0, and never counts its own children.
\<close>

theorem Printer_keywords_without_positional:
  "Printer_print str f_keywords_only = Inr ''f(xy)''
   \<and> Printer_print str f_positional_and_keyword = Inr ''f(z, a = x, b = y)''"
  by (simp add: Printer_print_def Printer_finish_def Printer_onParameter_def
      parenthesize_def startswith_def endswith_def str_name_def
      f_keywords_only_def f_positional_and_keyword_def par_x_def par_y_def par_z_def)

end
